theory Spec2Isabelle
  imports Complex_Main
begin

section \<open>Python values and strings\<close>

text \<open>
  The exceptions that the modelled code can raise.  \<open>requests.exceptions.RequestException\<close>
  is not among them: both call sites catch it, so it is an outcome of an HTTP exchange
  (see \<open>http_outcome\<close> below), never a result of a modelled function.
\<close>

datatype py_error = KeyError | TypeError | AttributeError | ValidationError

text \<open>Sequencing of computations that may raise: the first exception ends the chain.\<close>

definition andthen :: "py_error + 'a \<Rightarrow> ('a \<Rightarrow> py_error + 'b) \<Rightarrow> py_error + 'b" where
  "andthen m f = (case m of Inl e \<Rightarrow> Inl e | Inr v \<Rightarrow> f v)"

text \<open>A list comprehension whose element expression may raise.\<close>

fun traverse :: "('a \<Rightarrow> py_error + 'b) \<Rightarrow> 'a list \<Rightarrow> py_error + 'b list" where
  "traverse f [] = Inr []"
| "traverse f (x # xs) =
     andthen (f x) (\<lambda>y. andthen (traverse f xs) (\<lambda>ys. Inr (y # ys)))"

text \<open>
  \<open>str.replace(old, new)\<close>: the occurrences of \<open>old\<close> are replaced from left to right, without
  overlap.  For an empty \<open>old\<close> Python inserts \<open>new\<close> before every character and at the end.
\<close>

fun str_replace :: "string \<Rightarrow> string \<Rightarrow> string \<Rightarrow> string" where
  "str_replace [] new s = new @ concat (map (\<lambda>c. c # new) s)"
| "str_replace (a # old) new [] = []"
| "str_replace (a # old) new (c # s) =
     (if take (Suc (length old)) (c # s) = a # old
      then new @ str_replace (a # old) new (drop (length old) s)
      else c # str_replace (a # old) new s)"

text \<open>The substring test \<open>pat in s\<close> on strings.\<close>

fun occurs_in :: "string \<Rightarrow> string \<Rightarrow> bool" where
  "occurs_in pat [] = (pat = [])"
| "occurs_in pat (c # s) = (take (length pat) (c # s) = pat \<or> occurs_in pat s)"

text \<open>\<open>str.lower()\<close> on the ASCII letters; the other bytes stay.\<close>

definition lower_char :: "char \<Rightarrow> char" where
  "lower_char c =
     (case map_of (zip ''ABCDEFGHIJKLMNOPQRSTUVWXYZ'' ''abcdefghijklmnopqrstuvwxyz'') c of
        None \<Rightarrow> c
      | Some l \<Rightarrow> l)"

text \<open>
  A decoded JSON document, as \<open>response.json()\<close> returns it: \<open>JNull\<close> is \<open>None\<close>, an object is
  a dict (the first binding of a key is the one in force).  A Python value that the code
  stores without checking its type (a token read from a response) is kept as a JSON value.
\<close>

datatype json =
    JNull
  | JBool bool
  | JNum real
  | JStr string
  | JArr "json list"
  | JObj "(string \<times> json) list"

fun py_truthy :: "json \<Rightarrow> bool" where
  "py_truthy JNull = False"
| "py_truthy (JBool b) = b"
| "py_truthy (JNum x) = (x \<noteq> 0)"
| "py_truthy (JStr s) = (s \<noteq> [])"
| "py_truthy (JArr xs) = (xs \<noteq> [])"
| "py_truthy (JObj kvs) = (kvs \<noteq> [])"

text \<open>\<open>k in v\<close> for a string \<open>k\<close>: a key of a dict, an element of a list, a substring.\<close>

fun py_in :: "string \<Rightarrow> json \<Rightarrow> py_error + bool" where
  "py_in k (JObj kvs) = Inr (k \<in> set (map fst kvs))"
| "py_in k (JArr xs) = Inr (JStr k \<in> set xs)"
| "py_in k (JStr s) = Inr (occurs_in k s)"
| "py_in k v = Inl TypeError"

text \<open>\<open>v[k]\<close> for a string \<open>k\<close>.\<close>

fun py_getitem :: "json \<Rightarrow> string \<Rightarrow> py_error + json" where
  "py_getitem (JObj kvs) k = (case map_of kvs k of None \<Rightarrow> Inl KeyError | Some v \<Rightarrow> Inr v)"
| "py_getitem v k = Inl TypeError"

text \<open>\<open>v.get(k, default)\<close>: only a dict has the method.\<close>

fun py_get :: "json \<Rightarrow> string \<Rightarrow> json \<Rightarrow> py_error + json" where
  "py_get (JObj kvs) k d = Inr (case map_of kvs k of None \<Rightarrow> d | Some v \<Rightarrow> v)"
| "py_get v k d = Inl AttributeError"

text \<open>\<open>for x in v\<close>: the elements of a list, the keys of a dict, the characters of a string.\<close>

fun py_iter :: "json \<Rightarrow> py_error + json list" where
  "py_iter (JArr xs) = Inr xs"
| "py_iter (JObj kvs) = Inr (map JStr (remdups (map fst kvs)))"
| "py_iter (JStr s) = Inr (map (\<lambda>c. JStr [c]) s)"
| "py_iter v = Inl TypeError"

text \<open>
  \<open>"authorization" in str(err).lower()\<close>.  \<open>str\<close> renders every key and every string value of
  \<open>err\<close> as it is, between quotes (escape sequences of control characters aside); what it
  puts around them (digits, punctuation, blanks, \<open>True\<close>, \<open>False\<close>, \<open>None\<close>) has no letter run
  that starts, continues or ends the word.  So the test is a search in the strings of \<open>err\<close>.
\<close>

fun strings_of :: "json \<Rightarrow> string list" where
  "strings_of (JStr s) = [s]"
| "strings_of (JArr xs) = concat (map strings_of xs)"
| "strings_of (JObj kvs) = concat (map (\<lambda>(k, v). k # strings_of v) kvs)"
| "strings_of v = []"

definition mentions_authorization :: "json \<Rightarrow> bool" where
  "mentions_authorization err =
     list_ex (\<lambda>s. occurs_in ''authorization'' (map lower_char s)) (strings_of err)"

text \<open>\<open>a or b\<close> on optional strings: \<open>None\<close> and the empty string are falsy.\<close>

definition falsy :: "string option \<Rightarrow> bool" where
  "falsy a = (a = None \<or> a = Some [])"

definition py_or :: "string option \<Rightarrow> string option \<Rightarrow> string option" where
  "py_or a b = (if falsy a then b else a)"

section \<open>config.py\<close>

record PlatformConfig =
  pc_name :: string
  endpoint :: string
  store_code :: string
  requires_auth :: bool

record AuthConfig =
  username :: "string option"
  password :: "string option"
  customer_token :: json

record MMConfig =
  b2c :: PlatformConfig
  b2b :: PlatformConfig
  b2b_auth :: AuthConfig
  timeout :: int
  retry_attempts :: int
  rate_limit_delay :: real
  user_agent :: string

text \<open>
  The defaults of the class; the three credentials come from the environment variables
  \<open>MMPRO_USERNAME\<close>, \<open>MMPRO_PASSWORD\<close> and \<open>MMPRO_CUSTOMER_TOKEN\<close>.
\<close>

definition MMConfig_default :: "string option \<Rightarrow> string option \<Rightarrow> string option \<Rightarrow> MMConfig" where
  "MMConfig_default env_username env_password env_token =
     \<lparr>b2c = \<lparr>pc_name = ''online.mmvietnam.com'',
              endpoint = ''https://online.mmvietnam.com/graphql'',
              store_code = ''b2c_10010_vi'', requires_auth = False\<rparr>,
      b2b = \<lparr>pc_name = ''mmpro.vn'',
              endpoint = ''https://mmpro.vn/graphql'',
              store_code = ''mm_10010_vi'', requires_auth = True\<rparr>,
      b2b_auth = \<lparr>username = env_username, password = env_password,
                   customer_token = (case env_token of None \<Rightarrow> JNull | Some t \<Rightarrow> JStr t)\<rparr>,
      timeout = 30,
      retry_attempts = 3,
      rate_limit_delay = 1,
      user_agent = ''Mozilla/5.0 (X11; Linux x86_64) AppleWebKit/537.36 (KHTML, like Gecko) Chrome/130.0.0.0 Safari/537.36''\<rparr>"

section \<open>models.py\<close>

record Price =
  pvalue :: real
  currency :: string

record PriceRange =
  final_price :: Price
  regular_price :: Price
  discount_amount :: "real option"

text \<open>
  \<open>PriceRange.__init__\<close>: the optional keyword \<open>discount_amount\<close> defaults to \<open>None\<close>, and is
  then derived from the two prices.
\<close>

definition PriceRange_init :: "Price \<Rightarrow> Price \<Rightarrow> real option \<Rightarrow> PriceRange" where
  "PriceRange_init fp rp d =
     \<lparr>final_price = fp, regular_price = rp,
      discount_amount = (case d of None \<Rightarrow> Some (pvalue rp - pvalue fp) | Some x \<Rightarrow> Some x)\<rparr>"

text \<open>The field is assignable, so the properties meet \<open>None > 0\<close> when it was cleared.\<close>

definition has_discount :: "PriceRange \<Rightarrow> py_error + bool" where
  "has_discount pr =
     (case discount_amount pr of None \<Rightarrow> Inl TypeError | Some d \<Rightarrow> Inr (d > 0))"

definition discount_percentage :: "PriceRange \<Rightarrow> py_error + real" where
  "discount_percentage pr =
     (if pvalue (regular_price pr) > 0
      then (case discount_amount pr of
              None \<Rightarrow> Inl TypeError
            | Some d \<Rightarrow> Inr ((d / pvalue (regular_price pr)) * 100))
      else Inr 0)"

datatype PlatformType = B2C | B2B

text \<open>
  The models are pydantic classes: a constructor validates its arguments and raises
  \<open>ValidationError\<close>.  What pydantic accepts for an \<open>int\<close>, a \<open>float\<close> and a \<open>str\<close> field
  (which JSON values, and what they are converted to) is the library's business and a
  parameter here.
\<close>

record Pydantic =
  as_int :: "json \<Rightarrow> int option"
  as_float :: "json \<Rightarrow> real option"
  as_str :: "json \<Rightarrow> string option"

text \<open>An \<open>Optional\<close> field: \<open>None\<close> is valid.\<close>

definition as_optional :: "(json \<Rightarrow> 'a option) \<Rightarrow> json \<Rightarrow> 'a option option" where
  "as_optional f v = (if v = JNull then Some None else map_option Some (f v))"

definition Price_init :: "Pydantic \<Rightarrow> json \<Rightarrow> json \<Rightarrow> py_error + Price" where
  "Price_init V v c =
     (case (as_float V v, as_str V c) of
        (Some x, Some y) \<Rightarrow> Inr \<lparr>pvalue = x, currency = y\<rparr>
      | _ \<Rightarrow> Inl ValidationError)"

record Category =
  cat_uid :: "string option"
  cat_name :: string

definition Category_init :: "Pydantic \<Rightarrow> json \<Rightarrow> json \<Rightarrow> py_error + Category" where
  "Category_init V u n =
     (case (as_optional (as_str V) u, as_str V n) of
        (Some x, Some y) \<Rightarrow> Inr \<lparr>cat_uid = x, cat_name = y\<rparr>
      | _ \<Rightarrow> Inl ValidationError)"

record Product =
  p_id :: int
  p_uid :: string
  p_name :: string
  sku :: string
  price_range :: PriceRange
  stock_status :: string
  url_key :: string
  small_image_url :: "string option"
  categories :: "Category list"
  rating_summary :: "real option"
  platform :: "PlatformType option"
  scraped_at :: real

text \<open>
  The constructor call of \<open>_parse_product\<close>: the raw identifier, strings, image and rating are
  validated; the price range and the categories are model instances already; \<open>scraped_at\<close>
  takes its default, the time of the call.
\<close>

definition Product_init ::
  "Pydantic \<Rightarrow> json \<Rightarrow> json \<Rightarrow> json \<Rightarrow> json \<Rightarrow> PriceRange \<Rightarrow> json \<Rightarrow> json \<Rightarrow> json
     \<Rightarrow> Category list \<Rightarrow> json \<Rightarrow> PlatformType \<Rightarrow> real \<Rightarrow> py_error + Product" where
  "Product_init V i u n k pr st key img cats rating pf now =
     (case (as_int V i, as_str V u, as_str V n, as_str V k, as_str V st, as_str V key,
            as_optional (as_str V) img, as_optional (as_float V) rating) of
        (Some i', Some u', Some n', Some k', Some st', Some key', Some img', Some rating') \<Rightarrow>
          Inr \<lparr>p_id = i', p_uid = u', p_name = n', sku = k', price_range = pr,
               stock_status = st', url_key = key', small_image_url = img', categories = cats,
               rating_summary = rating', platform = Some pf, scraped_at = now\<rparr>
      | _ \<Rightarrow> Inl ValidationError)"

definition full_url :: "Product \<Rightarrow> string" where
  "full_url p =
     (if platform p = Some B2C then ''https://online.mmvietnam.com/'' @ url_key p @ ''.html''
      else if platform p = Some B2B then ''https://mmpro.vn/product/'' @ url_key p @ ''.html''
      else ''/'' @ url_key p @ ''.html'')"

definition price :: "Product \<Rightarrow> real" where
  "price p = pvalue (final_price (price_range p))"

record SearchResult =
  products :: "Product list"
  total_count :: int
  total_pages :: int
  current_page :: int
  sr_platform :: PlatformType

definition SearchResult_init ::
  "Pydantic \<Rightarrow> Product list \<Rightarrow> json \<Rightarrow> json \<Rightarrow> int \<Rightarrow> PlatformType \<Rightarrow> py_error + SearchResult" where
  "SearchResult_init V ps tc tp page pf =
     (case (as_int V tc, as_int V tp) of
        (Some tc', Some tp') \<Rightarrow>
          Inr \<lparr>products = ps, total_count = tc', total_pages = tp', current_page = page,
               sr_platform = pf\<rparr>
      | _ \<Rightarrow> Inl ValidationError)"

record PriceComparison =
  product_id :: int
  cmp_sku :: string
  cmp_name :: string
  b2c_price :: real
  b2b_price :: real
  difference :: real
  savings_percentage :: real
  b2c_url :: string
  b2b_url :: string

section \<open>The environment: clock, network and what the client did\<close>

record Headers =
  h_content_type :: string
  h_store :: string
  h_user_agent :: string
  h_authorization :: "json option" \<comment> \<open>\<open>Some t\<close>: the header \<open>Authorization: Bearer {t}\<close>\<close>

text \<open>
  A GET carries its query parameters (the variables are sent JSON-encoded; the value is kept
  here), a POST its JSON payload.
\<close>

datatype request =
    GET string Headers "(string \<times> json) list"
  | POST string Headers json

text \<open>
  What \<open>requests.get\<close>/\<open>requests.post\<close>, \<open>raise_for_status\<close> and \<open>response.json()\<close> come to: a
  \<open>RequestException\<close> (connection error, timeout, status outside 2xx, body that is not JSON),
  or the decoded body.
\<close>

datatype http_outcome = RequestException | Response json

datatype event = Slept real | Sent request

text \<open>
  The client's fields (\<open>config\<close>, \<open>auth_client.b2b_token\<close>, \<open>_last_request_time\<close>) and the
  world around it: the clock that \<open>time.time()\<close> reads, the answers that the network will
  give to the coming exchanges, each with the time it takes (when none is left, the backend
  is unreachable), and the record of every sleep and every request, with its time.
\<close>

record session =
  config :: MMConfig
  b2b_token :: json
  last_request_time :: real
  clock :: real
  network :: "(real \<times> http_outcome) list"
  trace :: "(real \<times> event) list"

definition time_sleep :: "real \<Rightarrow> session \<Rightarrow> session" where
  "time_sleep d s = s\<lparr>clock := clock s + d, trace := trace s @ [(clock s, Slept d)]\<rparr>"

definition http_request :: "request \<Rightarrow> session \<Rightarrow> http_outcome \<times> session" where
  "http_request req s =
     (case network s of
        [] \<Rightarrow> (RequestException, s\<lparr>trace := trace s @ [(clock s, Sent req)]\<rparr>)
      | (latency, out) # rest \<Rightarrow>
          (out, s\<lparr>clock := clock s + latency, network := rest,
                  trace := trace s @ [(clock s, Sent req)]\<rparr>))"

section \<open>auth.py\<close>

definition get_b2b_headers :: "session \<Rightarrow> Headers" where
  "get_b2b_headers s =
     \<lparr>h_content_type = ''application/json'',
      h_store = store_code (b2b (config s)),
      h_user_agent = user_agent (config s),
      h_authorization = (if py_truthy (b2b_token s) then Some (b2b_token s) else None)\<rparr>"

definition get_b2c_headers :: "session \<Rightarrow> Headers" where
  "get_b2c_headers s =
     \<lparr>h_content_type = ''application/json'',
      h_store = store_code (b2c (config s)),
      h_user_agent = user_agent (config s),
      h_authorization = None\<rparr>"

definition is_b2b_authenticated :: "session \<Rightarrow> bool" where
  "is_b2b_authenticated s = (b2b_token s \<noteq> JNull)"

definition generateCustomerToken :: string where
  "generateCustomerToken =
     ''mutation generateCustomerToken($email: String!, $password: String!) { generateCustomerToken(email: $email, password: $password) { token } }''"

text \<open>
  The part of \<open>authenticate_b2b\<close> after \<open>response.json()\<close>.  The log line of the error branch
  formats \<open>data['errors']\<close>, so it raises where that lookup does.  The token is stored as it
  comes, in the client and in the shared configuration.
\<close>

definition store_token :: "json \<Rightarrow> session \<Rightarrow> (py_error + bool) \<times> session" where
  "store_token data s =
     (case py_in ''errors'' data of
        Inl e \<Rightarrow> (Inl e, s)
      | Inr True \<Rightarrow>
          (case py_getitem data ''errors'' of
             Inl e \<Rightarrow> (Inl e, s)
           | Inr errs \<Rightarrow> (Inr False, s))
      | Inr False \<Rightarrow>
          (case andthen (py_in ''data'' data) (\<lambda>has_data.
                  if has_data
                  then andthen (py_getitem data ''data'') (py_in ''generateCustomerToken'')
                  else Inr False) of
             Inl e \<Rightarrow> (Inl e, s)
           | Inr False \<Rightarrow> (Inr False, s)
           | Inr True \<Rightarrow>
               (case andthen (py_getitem data ''data'') (\<lambda>d.
                       andthen (py_getitem d ''generateCustomerToken'') (\<lambda>token_data.
                       py_getitem token_data ''token'')) of
                  Inl e \<Rightarrow> (Inl e, s)
                | Inr tok \<Rightarrow>
                    (Inr True,
                     s\<lparr>b2b_token := tok,
                       config := (config s)\<lparr>b2b_auth :=
                                   (b2b_auth (config s))\<lparr>customer_token := tok\<rparr>\<rparr>\<rparr>))))"

definition authenticate_b2b ::
  "string option \<Rightarrow> string option \<Rightarrow> session \<Rightarrow> (py_error + bool) \<times> session" where
  "authenticate_b2b username' password' s =
     (let email = py_or username' (username (b2b_auth (config s)));
          pwd = py_or password' (password (b2b_auth (config s)))
      in if falsy email \<or> falsy pwd then (Inr False, s)
         else
           (case http_request
                   (POST (endpoint (b2b (config s)))
                      \<lparr>h_content_type = ''application/json'',
                       h_store = store_code (b2b (config s)),
                       h_user_agent = user_agent (config s),
                       h_authorization = None\<rparr>
                      (JObj [(''query'', JStr generateCustomerToken),
                             (''operationName'', JStr ''generateCustomerToken''),
                             (''variables'', JObj [(''email'', JStr (the email)),
                                                   (''password'', JStr (the pwd))])])) s of
              (RequestException, s1) \<Rightarrow> (Inr False, s1)
            | (Response data, s1) \<Rightarrow> store_token data s1))"

section \<open>api_client.py\<close>

definition PRODUCT_SEARCH_QUERY :: string where
  "PRODUCT_SEARCH_QUERY =
     ''query ProductSearch($currentPage: Int, $inputText: String!, $pageSize: Int) { products(currentPage: $currentPage, pageSize: $pageSize, search: $inputText) { items { id uid name sku price_range { maximum_price { final_price { currency value } regular_price { currency value } } } small_image { url } stock_status url_key categories { uid name } } total_count page_info { total_pages } } }''"

text \<open>
  \<open>MMAPIClient.__init__\<close>, in a world whose clock shows \<open>now\<close> and whose network will answer
  with \<open>net\<close>: the authentication client takes over a truthy token of the configuration.
\<close>

definition MMAPIClient_init :: "MMConfig \<Rightarrow> real \<Rightarrow> (real \<times> http_outcome) list \<Rightarrow> session" where
  "MMAPIClient_init cfg now net =
     \<lparr>config = cfg,
      b2b_token = (if py_truthy (customer_token (b2b_auth cfg))
                   then customer_token (b2b_auth cfg) else JNull),
      last_request_time = 0,
      clock = now,
      network = net,
      trace = []\<rparr>"

definition rate_limit :: "session \<Rightarrow> session" where
  "rate_limit s =
     (let elapsed = clock s - last_request_time s;
          s1 = (if elapsed < rate_limit_delay (config s)
                then time_sleep (rate_limit_delay (config s) - elapsed) s
                else s)
      in s1\<lparr>last_request_time := clock s1\<rparr>)"

text \<open>
  The test of the error branch: the log line formats \<open>data['errors']\<close> first; then, for the
  business backend only, \<open>any(...)\<close> runs over the errors.
\<close>

definition is_auth_error :: "PlatformType \<Rightarrow> json \<Rightarrow> py_error + bool" where
  "is_auth_error pf data =
     andthen (py_getitem data ''errors'') (\<lambda>errs.
       if pf = B2B
       then andthen (py_iter errs) (\<lambda>es. Inr (list_ex mentions_authorization es))
       else Inr False)"

text \<open>
  The body of \<open>for attempt in range(self.config.retry_attempts)\<close>, over the attempts that are
  left.  \<open>continue\<close> goes on with the rest of them; an exception other than
  \<open>RequestException\<close> leaves the loop and the function.
\<close>

fun attempts ::
  "PlatformType \<Rightarrow> string \<Rightarrow> (string \<times> json) list \<Rightarrow> Headers \<Rightarrow> nat list \<Rightarrow> session
     \<Rightarrow> (py_error + json option) \<times> session" where
  "attempts pf url params headers [] s = (Inr None, s)"
| "attempts pf url params headers (attempt # rest) s =
     (case http_request (GET url headers params) s of
        (RequestException, s1) \<Rightarrow>
          if int attempt < retry_attempts (config s1) - 1
          then attempts pf url params headers rest (time_sleep (2 ^ attempt) s1)
          else (Inr None, s1)
      | (Response data, s1) \<Rightarrow>
          (case py_in ''errors'' data of
             Inl e \<Rightarrow> (Inl e, s1)
           | Inr False \<Rightarrow> (Inr (Some data), s1)
           | Inr True \<Rightarrow>
               (case is_auth_error pf data of
                  Inl e \<Rightarrow> (Inl e, s1)
                | Inr False \<Rightarrow> (Inr None, s1)
                | Inr True \<Rightarrow>
                    (case authenticate_b2b None None s1 of
                       (Inl e, s2) \<Rightarrow> (Inl e, s2)
                     | (Inr False, s2) \<Rightarrow> (Inr None, s2)
                     | (Inr True, s2) \<Rightarrow>
                         attempts pf url params (get_b2b_headers s2) rest s2))))"

definition execute_query ::
  "PlatformType \<Rightarrow> string \<Rightarrow> json \<Rightarrow> string \<Rightarrow> session \<Rightarrow> (py_error + json option) \<times> session" where
  "execute_query pf query variables operation_name s =
     (let s0 = rate_limit s;
          url = (if pf = B2C then endpoint (b2c (config s0)) else endpoint (b2b (config s0)));
          headers = (if pf = B2C then get_b2c_headers s0 else get_b2b_headers s0);
          params = [(''query'', JStr query), (''operationName'', JStr operation_name),
                    (''variables'', variables)]
      in attempts pf url params headers [0 ..< nat (retry_attempts (config s0))] s0)"

text \<open>\<open>Category(uid=cat.get("uid"), name=cat["name"])\<close>\<close>

definition parse_category :: "Pydantic \<Rightarrow> json \<Rightarrow> py_error + Category" where
  "parse_category V cat =
     andthen (py_get cat ''uid'' JNull) (\<lambda>u.
     andthen (py_getitem cat ''name'') (\<lambda>n.
     Category_init V u n))"

text \<open>\<open>Price(value=price_info[k]["value"], currency=price_info[k]["currency"])\<close>\<close>

definition parse_price :: "Pydantic \<Rightarrow> json \<Rightarrow> string \<Rightarrow> py_error + Price" where
  "parse_price V price_info k =
     andthen (andthen (py_getitem price_info k) (\<lambda>p. py_getitem p ''value'')) (\<lambda>v.
     andthen (andthen (py_getitem price_info k) (\<lambda>p. py_getitem p ''currency'')) (\<lambda>c.
     Price_init V v c))"

text \<open>
  \<open>_parse_product\<close>; the arguments of the constructor are evaluated in the order in which
  they are written.  \<open>now\<close> is the time of the call.
\<close>

definition parse_product :: "Pydantic \<Rightarrow> real \<Rightarrow> json \<Rightarrow> PlatformType \<Rightarrow> py_error + Product" where
  "parse_product V now item pf =
     andthen (andthen (py_getitem item ''price_range'') (\<lambda>r. py_getitem r ''maximum_price''))
       (\<lambda>price_info.
     andthen (py_getitem item ''id'') (\<lambda>i.
     andthen (py_getitem item ''uid'') (\<lambda>u.
     andthen (py_getitem item ''name'') (\<lambda>n.
     andthen (py_getitem item ''sku'') (\<lambda>k.
     andthen (parse_price V price_info ''final_price'') (\<lambda>fp.
     andthen (parse_price V price_info ''regular_price'') (\<lambda>rp.
     andthen (py_getitem item ''stock_status'') (\<lambda>st.
     andthen (py_getitem item ''url_key'') (\<lambda>key.
     andthen (andthen (py_get item ''small_image'' (JObj [])) (\<lambda>img. py_get img ''url'' JNull))
       (\<lambda>image.
     andthen (andthen (andthen (py_get item ''categories'' (JArr [])) py_iter)
                (traverse (parse_category V))) (\<lambda>cats.
     andthen (py_get item ''rating_summary'' JNull) (\<lambda>rating.
     Product_init V i u n k (PriceRange_init fp rp None) st key image cats rating pf now))))))))))))"

text \<open>\<open>not result or "data" not in result or "products" not in result["data"]\<close>\<close>

definition products_missing :: "json \<Rightarrow> py_error + bool" where
  "products_missing result =
     (if \<not> py_truthy result then Inr True
      else andthen (py_in ''data'' result) (\<lambda>has_data.
           if \<not> has_data then Inr True
           else andthen (py_getitem result ''data'') (\<lambda>d.
                andthen (py_in ''products'' d) (\<lambda>has_products. Inr (\<not> has_products)))))"

text \<open>
  What \<open>search_products\<close> does with the document that the executor returned: the products
  are parsed first, then the constructor of the result reads the counts.
\<close>

definition to_search_result ::
  "Pydantic \<Rightarrow> PlatformType \<Rightarrow> int \<Rightarrow> real \<Rightarrow> json \<Rightarrow> py_error + SearchResult option" where
  "to_search_result V pf page now result =
     andthen (products_missing result) (\<lambda>missing.
     if missing then Inr None
     else
       andthen (andthen (py_getitem result ''data'') (\<lambda>d. py_getitem d ''products''))
         (\<lambda>products_data.
       andthen (andthen (andthen (py_getitem products_data ''items'') py_iter)
                  (traverse (\<lambda>item. parse_product V now item pf))) (\<lambda>ps.
       andthen (py_getitem products_data ''total_count'') (\<lambda>tc.
       andthen (andthen (py_getitem products_data ''page_info'')
                  (\<lambda>page_info. py_getitem page_info ''total_pages'')) (\<lambda>tp.
       andthen (SearchResult_init V ps tc tp page pf) (\<lambda>r. Inr (Some r)))))))"

text \<open>
  \<open>search_products\<close>.  The variables hold the page, the page size and the term; \<open>sort_by\<close> is
  a parameter that the body never reads.
\<close>

definition search_products ::
  "Pydantic \<Rightarrow> string \<Rightarrow> PlatformType \<Rightarrow> int \<Rightarrow> int \<Rightarrow> string \<Rightarrow> session
     \<Rightarrow> (py_error + SearchResult option) \<times> session" where
  "search_products V search_term pf page page_size sort_by s =
     (let variables = JObj [(''currentPage'', JNum (of_int page)),
                            (''pageSize'', JNum (of_int page_size)),
                            (''inputText'', JStr search_term)]
      in case execute_query pf PRODUCT_SEARCH_QUERY variables ''ProductSearch'' s of
           (Inl e, s1) \<Rightarrow> (Inl e, s1)
         | (Inr None, s1) \<Rightarrow> (Inr None, s1)
         | (Inr (Some result), s1) \<Rightarrow> (to_search_result V pf page (clock s1) result, s1))"

text \<open>
  The dict \<open>{p.sku: p for p in b2b_result.products}\<close>: a later product replaces an earlier
  one of the same sku.
\<close>

definition by_sku :: "Product list \<Rightarrow> string \<Rightarrow> Product option" where
  "by_sku ps = map_of (rev (map (\<lambda>p. (sku p, p)) ps))"

definition comparison :: "Product \<Rightarrow> Product \<Rightarrow> PriceComparison" where
  "comparison b2c_product b2b_product =
     (let diff = price b2c_product - price b2b_product;
          savings_pct = (if price b2c_product > 0 then (diff / price b2c_product) * 100 else 0)
      in \<lparr>product_id = p_id b2c_product,
          cmp_sku = sku b2c_product,
          cmp_name = p_name b2c_product,
          b2c_price = price b2c_product,
          b2b_price = price b2b_product,
          difference = diff,
          savings_percentage = savings_pct,
          b2c_url = full_url b2c_product,
          b2b_url = full_url b2b_product\<rparr>)"

text \<open>The loop over the consumer products: one without a partner is skipped.\<close>

fun comparisons :: "(string \<Rightarrow> Product option) \<Rightarrow> Product list \<Rightarrow> PriceComparison list" where
  "comparisons b2b_by_sku [] = []"
| "comparisons b2b_by_sku (b2c_product # rest) =
     (case b2b_by_sku (sku b2c_product) of
        None \<Rightarrow> comparisons b2b_by_sku rest
      | Some b2b_product \<Rightarrow> comparison b2c_product b2b_product # comparisons b2b_by_sku rest)"

text \<open>
  \<open>list.sort(key=..., reverse=True)\<close>: the list is reversed, sorted stably in ascending
  order of the key, and reversed again.
\<close>

definition sort_reverse :: "('a \<Rightarrow> real) \<Rightarrow> 'a list \<Rightarrow> 'a list" where
  "sort_reverse f xs = rev (sort_key f (rev xs))"

text \<open>
  \<open>compare_prices\<close>: both searches run (page 1, the default order) before either result is
  looked at.
\<close>

definition compare_prices ::
  "Pydantic \<Rightarrow> string \<Rightarrow> int \<Rightarrow> session \<Rightarrow> (py_error + PriceComparison list) \<times> session" where
  "compare_prices V search_term max_results s =
     (case search_products V search_term B2C 1 max_results ''relevance'' s of
        (Inl e, s1) \<Rightarrow> (Inl e, s1)
      | (Inr b2c_result, s1) \<Rightarrow>
          (case search_products V search_term B2B 1 max_results ''relevance'' s1 of
             (Inl e, s2) \<Rightarrow> (Inl e, s2)
           | (Inr b2b_result, s2) \<Rightarrow>
               (case (b2c_result, b2b_result) of
                  (Some r1, Some r2) \<Rightarrow>
                    (Inr (sort_reverse savings_percentage
                            (comparisons (by_sku (products r2)) (products r1))), s2)
                | _ \<Rightarrow> (Inr [], s2))))"

section \<open>stores.py\<close>

record Store =
  code :: string
  name :: string
  region :: "string option"

definition numeric_code :: "string \<Rightarrow> string" where
  "numeric_code c =
     str_replace ''_vi'' '''' (str_replace ''mm_'' '''' (str_replace ''b2c_'' '''' c))"

definition get_b2c_store_code :: "Store \<Rightarrow> string" where
  "get_b2c_store_code st = ''b2c_'' @ numeric_code (code st) @ ''_vi''"

definition get_b2b_store_code :: "Store \<Rightarrow> string" where
  "get_b2b_store_code st = ''mm_'' @ numeric_code (code st) @ ''_vi''"

text \<open>
  The class attribute \<open>KNOWN_STORES\<close>, a dict in insertion order.  The display names are the
  UTF-8 bytes of the source's literals.
\<close>

definition KNOWN_STORES :: "(string \<times> Store) list" where
  "KNOWN_STORES =
     [(''10010'', \<lparr>code = ''10010'',
         name = ''MM Mega Market An Ph'' @ [CHR 0xC3, CHR 0xBA], region = Some ''South''\<rparr>),
      (''10015'', \<lparr>code = ''10015'',
         name = ''MM Mega Market B'' @ [CHR 0xC3, CHR 0xAC] @ ''nh Ph'' @ [CHR 0xC3, CHR 0xBA],
         region = Some ''South''\<rparr>),
      (''10020'', \<lparr>code = ''10020'',
         name = ''MM Mega Market B'' @ [CHR 0xC3, CHR 0xAC] @ ''nh T'' @ [CHR 0xC3, CHR 0xA2] @ ''n'',
         region = Some ''South''\<rparr>),
      (''10035'', \<lparr>code = ''10035'',
         name = ''MM Mega Market Th'' @ [CHR 0xE1, CHR 0xBB, CHR 0xA7] @ '' ''
                  @ [CHR 0xC4, CHR 0x90, CHR 0xE1, CHR 0xBB, CHR 0xA9] @ ''c'',
         region = Some ''South''\<rparr>)]"

text \<open>The one mutable field of a \<open>StoreManager\<close> that the operations below touch.\<close>

record StoreManager =
  current_store :: "Store option"

definition get_store :: "string \<Rightarrow> Store option" where
  "get_store store_code' = map_of KNOWN_STORES (numeric_code store_code')"

definition StoreManager_init :: StoreManager where
  "StoreManager_init = \<lparr>current_store = map_of KNOWN_STORES ''10010''\<rparr>"

text \<open>A \<open>Store\<close> object is always truthy, so \<open>if store:\<close> tests for \<open>None\<close>.\<close>

definition set_current_store :: "string \<Rightarrow> StoreManager \<Rightarrow> bool \<times> StoreManager" where
  "set_current_store store_code' m =
     (case get_store store_code' of
        Some st \<Rightarrow> (True, m\<lparr>current_store := Some st\<rparr>)
      | None \<Rightarrow> (False, m))"

definition get_current_store :: "StoreManager \<Rightarrow> Store option" where
  "get_current_store m = current_store m"

text \<open>
  \<open>update_config_store\<close> assigns to the configuration it is given and to no field of the
  manager.
\<close>

definition update_config_store :: "MMConfig \<Rightarrow> string \<Rightarrow> bool \<times> MMConfig" where
  "update_config_store cfg store_code' =
     (case get_store store_code' of
        None \<Rightarrow> (False, cfg)
      | Some st \<Rightarrow>
          (True, cfg\<lparr>b2c := (b2c cfg)\<lparr>store_code := get_b2c_store_code st\<rparr>,
                     b2b := (b2b cfg)\<lparr>store_code := get_b2b_store_code st\<rparr>\<rparr>))"

text \<open>
  The states of a store manager that the methods of the class can produce: the constructor's
  state, and a call of \<open>set_current_store\<close> (the only method that assigns a field) from there.
\<close>

inductive reachable :: "StoreManager \<Rightarrow> bool" where
  init: "reachable StoreManager_init"
| step: "reachable m \<Longrightarrow> reachable (snd (set_current_store c m))"

section \<open>Observations and example worlds\<close>

text \<open>What a session's record shows: which events were sleeps, and when requests went out.\<close>

fun is_sleep :: "event \<Rightarrow> bool" where
  "is_sleep (Slept d) = True"
| "is_sleep (Sent r) = False"

definition sent_at :: "session \<Rightarrow> real list" where
  "sent_at s = map fst (filter (\<lambda>te. \<not> is_sleep (snd te)) (trace s))"

text \<open>
  An instance of the validation parameter for the examples: a JSON number for a \<open>float\<close>, an
  integral one for an \<open>int\<close>, a JSON string for a \<open>str\<close>, which every version of pydantic
  accepts.
\<close>

definition strict_validation :: Pydantic where
  "strict_validation =
     \<lparr>as_int = (\<lambda>v. case v of
                       JNum x \<Rightarrow> if x = of_int \<lfloor>x\<rfloor> then Some \<lfloor>x\<rfloor> else None
                     | _ \<Rightarrow> None),
      as_float = (\<lambda>v. case v of JNum x \<Rightarrow> Some x | _ \<Rightarrow> None),
      as_str = (\<lambda>v. case v of JStr x \<Rightarrow> Some x | _ \<Rightarrow> None)\<rparr>"

text \<open>The default configuration, with credentials and a token from the environment.\<close>

definition example_config :: MMConfig where
  "example_config =
     MMConfig_default (Some ''buyer@example.com'') (Some ''secret'') (Some ''stale'')"

text \<open>Response bodies: an authorization error, a fresh token, a page of products.\<close>

definition auth_error :: json where
  "auth_error =
     JObj [(''message'', JStr ''The current customer is not authorized.''),
           (''extensions'', JObj [(''category'', JStr ''graphql-authorization'')])]"

definition auth_error_body :: json where
  "auth_error_body = JObj [(''errors'', JArr [auth_error]), (''data'', JNull)]"

definition token_body :: json where
  "token_body =
     JObj [(''data'', JObj [(''generateCustomerToken'', JObj [(''token'', JStr ''fresh'')])])]"

definition money :: "real \<Rightarrow> json" where
  "money x = JObj [(''currency'', JStr ''VND''), (''value'', JNum x)]"

definition item :: "real \<Rightarrow> string \<Rightarrow> real \<Rightarrow> json" where
  "item i k p =
     JObj [(''id'', JNum i), (''uid'', JStr ''MTA=''), (''name'', JStr ''Rice 5kg''),
           (''sku'', JStr k),
           (''price_range'', JObj [(''maximum_price'',
               JObj [(''final_price'', money p), (''regular_price'', money p)])]),
           (''small_image'', JObj [(''url'', JStr ''https://img/1.jpg'')]),
           (''stock_status'', JStr ''IN_STOCK''), (''url_key'', JStr ''rice-5kg''),
           (''categories'', JArr [JObj [(''uid'', JStr ''Mg==''), (''name'', JStr ''Food'')]])]"

definition page_of :: "json list \<Rightarrow> json" where
  "page_of items =
     JObj [(''data'', JObj [(''products'',
       JObj [(''items'', JArr items), (''total_count'', JNum 40),
             (''page_info'', JObj [(''total_pages'', JNum 20)])])])]"

text \<open>The first request meets a connection error, the second is answered.\<close>

definition flaky_session :: session where
  "flaky_session =
     MMAPIClient_init example_config 100
       [(1/2, RequestException), (1/2, Response (page_of []))]"

text \<open>Three requests in a row fail (the second by timeout); a fourth would be answered.\<close>

definition outage_session :: session where
  "outage_session =
     MMAPIClient_init example_config 100
       [(1/2, RequestException), (30, RequestException), (1/2, RequestException),
        (1/2, Response (page_of []))]"

text \<open>
  After one connection error the token turns out to have expired; logging in again works,
  and so does the query after it.
\<close>

definition stale_session :: session where
  "stale_session =
     MMAPIClient_init example_config 100
       [(1/2, RequestException), (1/2, Response auth_error_body),
        (1/2, Response token_body), (1/2, Response (page_of []))]"

text \<open>The same, after two connection errors instead of one.\<close>

definition late_expiry_session :: session where
  "late_expiry_session =
     MMAPIClient_init example_config 100
       [(1/2, RequestException), (1/2, RequestException),
        (1/2, Response auth_error_body), (1/2, Response token_body),
        (1/2, Response (page_of []))]"

text \<open>The backend answers with a document that has no \<open>products\<close>.\<close>

definition no_products_session :: session where
  "no_products_session =
     MMAPIClient_init example_config 100 [(1/2, Response (JObj [(''data'', JObj [])]))]"

text \<open>The backend answers with an item that has an identifier and a name only.\<close>

definition broken_session :: session where
  "broken_session =
     MMAPIClient_init example_config 100
       [(1/2, Response (page_of [JObj [(''id'', JNum 1), (''name'', JStr ''Rice 5kg'')]]))]"

text \<open>The consumer backend lists the skus A, B and D, the business backend B, C and A.\<close>

definition market_session :: session where
  "market_session =
     MMAPIClient_init example_config 100
       [(1/2, Response (page_of [item 1 ''A'' 100, item 2 ''B'' 50, item 3 ''D'' 10])),
        (1/2, Response (page_of [item 7 ''B'' 40, item 8 ''C'' 70, item 9 ''A'' 90]))]"

text \<open>
  The consumer backend answers with a document without products, the business backend with
  an item that has an identifier and a name only.
\<close>

definition half_broken_session :: session where
  "half_broken_session =
     MMAPIClient_init example_config 100
       [(1/2, Response (JObj [(''data'', JObj [])])),
        (1/2, Response (page_of [JObj [(''id'', JNum 1), (''name'', JStr ''Rice 5kg'')]]))]"

section \<open>Helper facts\<close>

lemmas world_defs = MMAPIClient_init_def example_config_def MMConfig_default_def
  execute_query_def rate_limit_def http_request_def time_sleep_def
  get_b2c_headers_def get_b2b_headers_def Let_def upt_rec

lemmas body_defs = page_of_def item_def money_def auth_error_body_def auth_error_def
  token_body_def andthen_def

lemmas parse_defs = search_products_def to_search_result_def products_missing_def
  parse_product_def parse_price_def parse_category_def Price_init_def Category_init_def
  Product_init_def SearchResult_init_def PriceRange_init_def strict_validation_def
  as_optional_def

subsection \<open>Strings and store codes\<close>

lemma str_replace_skip:
  "a \<notin> set n \<Longrightarrow> str_replace (a # old) new (n @ t) = n @ str_replace (a # old) new t"
proof (induction n)
  case Nil
  show ?case by simp
next
  case (Cons c n)
  from Cons.prems have ca: "c \<noteq> a" and an: "a \<notin> set n" by auto
  have ne: "(take (Suc (length old)) (c # n @ t) = a # old) = False"
    using ca by simp
  have step: "str_replace (a # old) new (c # n @ t) = c # str_replace (a # old) new (n @ t)"
    by (simp only: str_replace.simps ne if_False)
  show ?case
    by (simp only: append_Cons step Cons.IH [OF an])
qed

lemma str_replace_absent: "a \<notin> set n \<Longrightarrow> str_replace (a # old) new n = n"
  using str_replace_skip [of a n old new "[]"] by simp

lemma digits_no_letters:
  "list_all (\<lambda>ch. ch \<in> set ''0123456789'') n \<Longrightarrow>
     CHR ''b'' \<notin> set n \<and> CHR ''m'' \<notin> set n \<and> CHR ''_'' \<notin> set n"
  by (induction n) auto

lemma numeric_code_digits:
  assumes "list_all (\<lambda>ch. ch \<in> set ''0123456789'') n"
  shows "numeric_code (''b2c_'' @ n @ ''_vi'') = n"
    and "numeric_code (''mm_'' @ n @ ''_vi'') = n"
    and "numeric_code n = n"
proof -
  from digits_no_letters [OF assms]
  have b: "CHR ''b'' \<notin> set n" and m: "CHR ''m'' \<notin> set n" and u: "CHR ''_'' \<notin> set n"
    by simp_all
  have b': "CHR ''b'' \<notin> set (n @ ''_vi'')" and m': "CHR ''m'' \<notin> set (n @ ''_vi'')"
    using b m by simp_all
  have p1: "str_replace ''b2c_'' '''' (''b2c_'' @ n @ ''_vi'') = n @ ''_vi''"
    using str_replace_absent [OF b', of "''2c_''" "''''"] by simp
  have p2: "str_replace ''mm_'' '''' (''mm_'' @ n @ ''_vi'') = n @ ''_vi''"
    using str_replace_absent [OF m', of "''m_''" "''''"] by simp
  have q1: "str_replace ''mm_'' '''' (n @ ''_vi'') = n @ ''_vi''"
    using str_replace_absent [OF m', of "''m_''" "''''"] by simp
  have q2: "str_replace ''b2c_'' '''' (''mm_'' @ n @ ''_vi'') = ''mm_'' @ n @ ''_vi''"
    using str_replace_absent [of "CHR ''b''" "''mm_'' @ n @ ''_vi''" "''2c_''" "''''"] b
    by simp
  have q3: "str_replace ''_vi'' '''' (n @ ''_vi'') = n"
    using str_replace_skip [OF u, of "''vi''" "''''" "''_vi''"] by simp
  show "numeric_code (''b2c_'' @ n @ ''_vi'') = n"
    by (simp only: numeric_code_def p1 q1 q3)
  show "numeric_code (''mm_'' @ n @ ''_vi'') = n"
    by (simp only: numeric_code_def q2 p2 q3)
  show "numeric_code n = n"
    by (simp only: numeric_code_def str_replace_absent [OF b] str_replace_absent [OF m]
        str_replace_absent [OF u])
qed

lemma known_store_code: "map_of KNOWN_STORES k = Some st \<Longrightarrow> code st = k"
  by (auto simp add: KNOWN_STORES_def split: if_splits)

subsection \<open>What an exchange, a sleep and the rate limiter change\<close>

lemma http_request_frame:
  "last_request_time (snd (http_request r s)) = last_request_time s"
  "config (snd (http_request r s)) = config s"
  "b2b_token (snd (http_request r s)) = b2b_token s"
  by (simp_all add: http_request_def split: list.split prod.split)

lemma http_request_effect:
  "network (snd (http_request r s)) = tl (network s)"
  "trace (snd (http_request r s)) = trace s @ [(clock s, Sent r)]"
  by (simp_all add: http_request_def split: list.split prod.split)

lemma http_request_fails:
  "list_all (\<lambda>x. snd x = RequestException) (take (Suc m) (network s)) \<Longrightarrow>
     fst (http_request r s) = RequestException"
  by (cases "network s") (auto simp add: http_request_def)

lemma time_sleep_frame:
  "last_request_time (time_sleep d s) = last_request_time s"
  "config (time_sleep d s) = config s"
  "b2b_token (time_sleep d s) = b2b_token s"
  "network (time_sleep d s) = network s"
  "trace (time_sleep d s) = trace s @ [(clock s, Slept d)]"
  by (simp_all add: time_sleep_def)

lemma rate_limit_frame:
  "config (rate_limit s) = config s"
  "network (rate_limit s) = network s"
  "b2b_token (rate_limit s) = b2b_token s"
  by (simp_all add: rate_limit_def Let_def time_sleep_def)

lemma headers_rate_limit:
  "get_b2b_headers (rate_limit s) = get_b2b_headers s"
  "get_b2c_headers (rate_limit s) = get_b2c_headers s"
  by (simp_all add: get_b2b_headers_def get_b2c_headers_def rate_limit_frame)

lemma rate_limit_watermark:
  "last_request_time (rate_limit s) = clock (rate_limit s)"
  "clock (rate_limit s) = max (clock s) (last_request_time s + rate_limit_delay (config s))"
  by (auto simp add: rate_limit_def Let_def time_sleep_def)

subsection \<open>Authentication\<close>

lemma py_in_of_getitem: "py_getitem d k = Inr v \<Longrightarrow> py_in k d = Inr True"
proof (cases d)
  case (JObj kvs)
  assume "py_getitem d k = Inr v"
  with JObj have "map_of kvs k = Some v" by (simp split: option.splits)
  then have "(k, v) \<in> set kvs" by (rule map_of_SomeD)
  then have "k \<in> fst ` set kvs" by force
  with JObj show ?thesis by simp
qed simp_all

lemma py_or_None: "py_or None b = b"
  by (simp add: py_or_def falsy_def)

lemma store_token_success:
  assumes "py_in ''errors'' d = Inr False"
    and "py_getitem d ''data'' = Inr dd"
    and "py_getitem dd ''generateCustomerToken'' = Inr td"
    and "py_getitem td ''token'' = Inr tok"
  shows "store_token d s =
     (Inr True, s\<lparr>b2b_token := tok,
                  config := (config s)\<lparr>b2b_auth :=
                              (b2b_auth (config s))\<lparr>customer_token := tok\<rparr>\<rparr>\<rparr>)"
  using assms py_in_of_getitem [OF assms(2)] py_in_of_getitem [OF assms(3)]
  by (simp add: store_token_def andthen_def)

lemma store_token_watermark:
  "last_request_time (snd (store_token d s)) = last_request_time s"
  by (simp add: store_token_def split: sum.split bool.split)

lemma authenticate_b2b_watermark:
  "last_request_time (snd (authenticate_b2b u p s)) = last_request_time s"
proof (cases "http_request
                (POST (endpoint (b2b (config s)))
                   \<lparr>h_content_type = ''application/json'',
                    h_store = store_code (b2b (config s)),
                    h_user_agent = user_agent (config s),
                    h_authorization = None\<rparr>
                   (JObj [(''query'', JStr generateCustomerToken),
                          (''operationName'', JStr ''generateCustomerToken''),
                          (''variables'',
                           JObj [(''email'',
                                  JStr (the (py_or u (username (b2b_auth (config s)))))),
                                 (''password'',
                                  JStr (the (py_or p (password (b2b_auth (config s))))))])]))
                s")
  case (Pair out s1)
  then have "last_request_time s1 = last_request_time s"
    using http_request_frame(1) by (metis snd_conv)
  with Pair show ?thesis
    by (simp add: authenticate_b2b_def Let_def store_token_watermark split: http_outcome.split)
qed

subsection \<open>The retry loop\<close>

lemma attempts_watermark:
  "last_request_time (snd (attempts pf url params headers as s)) = last_request_time s"
proof (induction as arbitrary: headers s)
  case Nil
  show ?case by simp
next
  case (Cons a as)
  obtain out s1 where req: "http_request (GET url headers params) s = (out, s1)"
    by (cases "http_request (GET url headers params) s")
  then have s1: "last_request_time s1 = last_request_time s"
    using http_request_frame(1) by (metis snd_conv)
  obtain res s2 where auth: "authenticate_b2b None None s1 = (res, s2)"
    by (cases "authenticate_b2b None None s1")
  then have s2: "last_request_time s2 = last_request_time s"
    using authenticate_b2b_watermark s1 by (metis snd_conv)
  show ?case
    using req auth s1 s2 Cons.IH
    by (simp add: time_sleep_frame split: http_outcome.split sum.split bool.split)
qed

lemma attempts_all_fail:
  "nat (retry_attempts (config s)) = n \<Longrightarrow> n - k = m \<Longrightarrow>
   list_all (\<lambda>x. snd x = RequestException) (take m (network s)) \<Longrightarrow>
     fst (attempts pf url params hdrs [k..<n] s) = Inr None \<and>
     map snd (trace (snd (attempts pf url params hdrs [k..<n] s))) =
       map snd (trace s) @
       concat (map (\<lambda>attempt. Sent (GET url hdrs params) #
                      (if Suc attempt < n then [Slept (2 ^ attempt)] else [])) [k..<n])"
proof (induction m arbitrary: k s)
  case 0
  then show ?case by simp
next
  case (Suc m)
  from Suc.prems have kn: "k < n" and r: "retry_attempts (config s) = int n" by auto
  obtain out s1 where req: "http_request (GET url hdrs params) s = (out, s1)"
    by (cases "http_request (GET url hdrs params) s")
  have out: "out = RequestException"
    using http_request_fails [OF Suc.prems(3), of "GET url hdrs params"] req by simp
  have s1: "config s1 = config s" "network s1 = tl (network s)"
    "trace s1 = trace s @ [(clock s, Sent (GET url hdrs params))]"
    using http_request_frame(2) [of "GET url hdrs params" s]
      http_request_effect [of "GET url hdrs params" s] req by simp_all
  have upt: "[k..<n] = k # [Suc k..<n]" using kn by (simp add: upt_conv_Cons)
  show ?case
  proof (cases "Suc k < n")
    case True
    let ?s2 = "time_sleep (2 ^ k) s1"
    have a: "nat (retry_attempts (config ?s2)) = n"
      using Suc.prems(1) s1 by (simp add: time_sleep_frame)
    have b: "n - Suc k = m" using Suc.prems(2) by simp
    have c: "list_all (\<lambda>x. snd x = RequestException) (take m (network ?s2))"
      using Suc.prems(3) s1 by (cases "network s") (simp_all add: time_sleep_frame)
    from Suc.IH [OF a b c] True r req out s1 upt show ?thesis
      by (simp add: time_sleep_frame)
  next
    case False
    with kn have "[Suc k..<n] = []" by simp
    with False r req out s1 upt show ?thesis by simp
  qed
qed

lemma upt_next_two:
  "int j + 2 \<le> r \<Longrightarrow> [j..<nat r] = j # Suc j # [Suc (Suc j)..<nat r]"
  by (simp add: upt_rec [of j] upt_rec [of "Suc j"])

lemma attempts_reauth_now:
  assumes creds: "\<not> falsy (username (b2b_auth (config s)))"
                 "\<not> falsy (password (b2b_auth (config s)))"
    and budget: "int j + 2 \<le> retry_attempts (config s)"
    and net: "network s = (l1, Response d1) # (l2, Response d2) # (l3, Response d3) # rest"
    and d1: "py_getitem d1 ''errors'' = Inr errs" "py_iter errs = Inr es"
            "list_ex mentions_authorization es"
    and d2: "py_in ''errors'' d2 = Inr False" "py_getitem d2 ''data'' = Inr dd"
            "py_getitem dd ''generateCustomerToken'' = Inr td"
            "py_getitem td ''token'' = Inr tok"
    and d3: "py_in ''errors'' d3 = Inr False"
  shows "fst (attempts B2B url params hdrs [j..<nat (retry_attempts (config s))] s)
           = Inr (Some d3) \<and>
     b2b_token (snd (attempts B2B url params hdrs [j..<nat (retry_attempts (config s))] s))
           = tok \<and>
     network (snd (attempts B2B url params hdrs [j..<nat (retry_attempts (config s))] s))
           = rest \<and>
     map snd (trace (snd (attempts B2B url params hdrs
                            [j..<nat (retry_attempts (config s))] s))) =
       map snd (trace s) @
       [Sent (GET url hdrs params),
        Sent (POST (endpoint (b2b (config s)))
                ((get_b2b_headers s)\<lparr>h_authorization := None\<rparr>)
                (JObj [(''query'', JStr generateCustomerToken),
                       (''operationName'', JStr ''generateCustomerToken''),
                       (''variables'',
                        JObj [(''email'', JStr (the (username (b2b_auth (config s))))),
                              (''password'',
                               JStr (the (password (b2b_auth (config s)))))])])),
        Sent (GET url
                ((get_b2b_headers s)
                   \<lparr>h_authorization := (if py_truthy tok then Some tok else None)\<rparr>)
                params)]"
proof -
  have e1: "py_in ''errors'' d1 = Inr True" using d1(1) by (rule py_in_of_getitem)
  have a1: "is_auth_error B2B d1 = Inr True"
    using d1 by (simp add: is_auth_error_def andthen_def)
  show ?thesis
    using creds net e1 a1 d3
    by (simp add: upt_next_two [OF budget] http_request_def
        authenticate_b2b_def py_or_None store_token_success [OF d2] get_b2b_headers_def)
qed

lemma attempts_reauth:
  assumes creds: "\<not> falsy (username (b2b_auth (config s)))"
                 "\<not> falsy (password (b2b_auth (config s)))"
    and fails: "list_all (\<lambda>x. snd x = RequestException) failures"
    and budget: "int j + int (length failures) + 2 \<le> retry_attempts (config s)"
    and net: "network s =
                failures @ (l1, Response d1) # (l2, Response d2) # (l3, Response d3) # rest"
    and d1: "py_getitem d1 ''errors'' = Inr errs" "py_iter errs = Inr es"
            "list_ex mentions_authorization es"
    and d2: "py_in ''errors'' d2 = Inr False" "py_getitem d2 ''data'' = Inr dd"
            "py_getitem dd ''generateCustomerToken'' = Inr td"
            "py_getitem td ''token'' = Inr tok"
    and d3: "py_in ''errors'' d3 = Inr False"
  shows "fst (attempts B2B url params hdrs [j..<nat (retry_attempts (config s))] s)
           = Inr (Some d3) \<and>
     b2b_token (snd (attempts B2B url params hdrs [j..<nat (retry_attempts (config s))] s))
           = tok \<and>
     network (snd (attempts B2B url params hdrs [j..<nat (retry_attempts (config s))] s))
           = rest \<and>
     map snd (trace (snd (attempts B2B url params hdrs
                            [j..<nat (retry_attempts (config s))] s))) =
       map snd (trace s) @
       concat (map (\<lambda>attempt. [Sent (GET url hdrs params), Slept (2 ^ attempt)])
                 [j..<j + length failures]) @
       [Sent (GET url hdrs params),
        Sent (POST (endpoint (b2b (config s)))
                ((get_b2b_headers s)\<lparr>h_authorization := None\<rparr>)
                (JObj [(''query'', JStr generateCustomerToken),
                       (''operationName'', JStr ''generateCustomerToken''),
                       (''variables'',
                        JObj [(''email'', JStr (the (username (b2b_auth (config s))))),
                              (''password'',
                               JStr (the (password (b2b_auth (config s)))))])])),
        Sent (GET url
                ((get_b2b_headers s)
                   \<lparr>h_authorization := (if py_truthy tok then Some tok else None)\<rparr>)
                params)]"
  using creds fails budget net
proof (induction failures arbitrary: j s)
  case Nil
  from attempts_reauth_now [OF Nil.prems(1,2) _ _ d1 d2 d3, of j l1 l2 l3 rest url params hdrs]
    Nil.prems(4,5)
  show ?case by simp
next
  case (Cons f fs)
  let ?n = "nat (retry_attempts (config s))"
  from Cons.prems(3) have f: "snd f = RequestException"
    and fs: "list_all (\<lambda>x. snd x = RequestException) fs"
    by simp_all
  obtain out s1 where req: "http_request (GET url hdrs params) s = (out, s1)"
    by (cases "http_request (GET url hdrs params) s")
  have out: "out = RequestException"
    using Cons.prems(5) f req by (cases f) (simp add: http_request_def)
  have s1: "config s1 = config s" "b2b_token s1 = b2b_token s"
    "network s1 = tl (network s)"
    "trace s1 = trace s @ [(clock s, Sent (GET url hdrs params))]"
    using http_request_frame(2,3) [of "GET url hdrs params" s]
      http_request_effect [of "GET url hdrs params" s] req by simp_all
  let ?s2 = "time_sleep (2 ^ j) s1"
  have cfg: "config ?s2 = config s" and tok2: "b2b_token ?s2 = b2b_token s"
    by (simp_all add: time_sleep_frame s1)
  have net2: "network ?s2 =
      fs @ (l1, Response d1) # (l2, Response d2) # (l3, Response d3) # rest"
    using Cons.prems(5) by (simp add: time_sleep_frame s1)
  have tr2: "map snd (trace ?s2) =
      map snd (trace s) @ [Sent (GET url hdrs params), Slept (2 ^ j)]"
    by (simp add: time_sleep_frame s1)
  have budget2: "int (Suc j) + int (length fs) + 2 \<le> retry_attempts (config ?s2)"
    using Cons.prems(4) cfg by simp
  have c1: "\<not> falsy (username (b2b_auth (config ?s2)))"
    and c2: "\<not> falsy (password (b2b_auth (config ?s2)))"
    using Cons.prems(1,2) cfg by simp_all
  have hd2: "get_b2b_headers ?s2 = get_b2b_headers s"
    by (simp add: get_b2b_headers_def cfg tok2)
  have upt: "[j..<?n] = j # [Suc j..<?n]"
    using Cons.prems(4) by (simp add: upt_conv_Cons)
  have more: "int j < retry_attempts (config s1) - 1"
    using Cons.prems(4) by (simp add: s1)
  have step: "attempts B2B url params hdrs [j..<?n] s
      = attempts B2B url params hdrs [Suc j..<?n] ?s2"
    using more by (simp add: upt req out)
  have idx: "[j..<j + length (f # fs)] = j # [Suc j..<Suc j + length fs]"
  proof -
    have "[j..<j + length (f # fs)] = j # [Suc j..<j + length (f # fs)]"
      by (rule upt_conv_Cons) simp
    moreover have "j + length (f # fs) = Suc j + length fs" by simp
    ultimately show ?thesis by (simp only:)
  qed
  from Cons.IH [OF c1 c2 fs budget2 net2] show ?case
    by (simp only: step cfg hd2 tr2 idx) simp
qed

subsection \<open>Search and comparison\<close>

lemma products_missing_cases:
  "\<not> py_truthy doc \<or>
     (\<exists>kvs. doc = JObj kvs \<and>
        (map_of kvs ''data'' = None \<or>
         (\<exists>dd. map_of kvs ''data'' = Some (JObj dd) \<and> map_of dd ''products'' = None))) \<Longrightarrow>
   products_missing doc = Inr True"
  by (auto simp add: products_missing_def andthen_def map_of_eq_None_iff)

lemma by_sku_Some: "by_sku ps k = Some q \<Longrightarrow> q \<in> set ps \<and> sku q = k"
  by (auto simp add: by_sku_def dest!: map_of_SomeD)

lemma comparisons_sku:
  "c \<in> set (comparisons (by_sku qs) ps) \<Longrightarrow>
     cmp_sku c \<in> sku ` set ps \<and> cmp_sku c \<in> sku ` set qs"
proof (induction ps)
  case Nil
  then show ?case by simp
next
  case (Cons p ps)
  show ?case
  proof (cases "by_sku qs (sku p)")
    case None
    with Cons show ?thesis by auto
  next
    case (Some q)
    then have q: "q \<in> set qs" "sku q = sku p" using by_sku_Some by auto
    have new: "cmp_sku (comparison p q) = sku p" by (simp add: comparison_def Let_def)
    from Cons.prems Some consider "c = comparison p q" | "c \<in> set (comparisons (by_sku qs) ps)"
      by auto
    then show ?thesis
    proof cases
      case 1
      with new have "cmp_sku c = sku p" by simp
      moreover have "sku p \<in> sku ` set qs" using q by (metis imageI)
      ultimately show ?thesis by simp
    next
      case 2
      with Cons.IH show ?thesis by auto
    qed
  qed
qed

lemma sort_reverse_set: "set (sort_reverse f xs) = set xs"
  by (simp add: sort_reverse_def)

lemma sort_reverse_descending:
  "sorted_wrt (\<lambda>a b. f a \<ge> f b) (sort_reverse f xs)"
proof -
  have "sorted (map f (sort_key f (rev xs)))" by (rule sorted_sort_key)
  then have "sorted_wrt (\<lambda>a b. f a \<le> f b) (sort_key f (rev xs))"
    by (simp add: sorted_map)
  then show ?thesis by (simp add: sort_reverse_def sorted_wrt_rev)
qed

section \<open>The query executor\<close>

text \<open>
  C1 (as amended).  When the business backend answers an attempt (the first, or one after
  connection errors) with an errors array that mentions authorization, the executor logs in
  again, once for that answer.  If the login yields a token and the retry budget has another
  attempt left, the request is sent again as that next attempt, with the bearer header of
  the new token, and an answer without errors to it is what the executor returns.  The
  retry uses up one attempt of the budget.
\<close>

theorem reauth_then_retry:
  assumes creds: "\<not> falsy (username (b2b_auth (config s)))"
                 "\<not> falsy (password (b2b_auth (config s)))"
    and fails: "list_all (\<lambda>x. snd x = RequestException) failures"
    and budget: "int (length failures) + 2 \<le> retry_attempts (config s)"
    and net: "network s =
                failures @ (l1, Response d1) # (l2, Response d2) # (l3, Response d3) # rest"
    and d1: "py_getitem d1 ''errors'' = Inr errs" "py_iter errs = Inr es"
            "list_ex mentions_authorization es"
    and d2: "py_in ''errors'' d2 = Inr False" "py_getitem d2 ''data'' = Inr dd"
            "py_getitem dd ''generateCustomerToken'' = Inr td"
            "py_getitem td ''token'' = Inr tok"
    and d3: "py_in ''errors'' d3 = Inr False"
    and params: "params = [(''query'', JStr query), (''operationName'', JStr operation_name),
                           (''variables'', variables)]"
    and url: "url = endpoint (b2b (config s))"
  shows "fst (execute_query B2B query variables operation_name s) = Inr (Some d3) \<and>
     b2b_token (snd (execute_query B2B query variables operation_name s)) = tok \<and>
     network (snd (execute_query B2B query variables operation_name s)) = rest \<and>
     map snd (trace (snd (execute_query B2B query variables operation_name s))) =
       map snd (trace (rate_limit s)) @
       concat (map (\<lambda>attempt. [Sent (GET url (get_b2b_headers s) params),
                                 Slept (2 ^ attempt)]) [0..<length failures]) @
       [Sent (GET url (get_b2b_headers s) params),
        Sent (POST url
                ((get_b2b_headers s)\<lparr>h_authorization := None\<rparr>)
                (JObj [(''query'', JStr generateCustomerToken),
                       (''operationName'', JStr ''generateCustomerToken''),
                       (''variables'',
                        JObj [(''email'', JStr (the (username (b2b_auth (config s))))),
                              (''password'',
                               JStr (the (password (b2b_auth (config s)))))])])),
        Sent (GET url
                ((get_b2b_headers s)
                   \<lparr>h_authorization := (if py_truthy tok then Some tok else None)\<rparr>)
                params)]"
proof -
  let ?s0 = "rate_limit s"
  have c1: "\<not> falsy (username (b2b_auth (config ?s0)))"
    and c2: "\<not> falsy (password (b2b_auth (config ?s0)))"
    using creds by (simp_all add: rate_limit_frame)
  have b: "int 0 + int (length failures) + 2 \<le> retry_attempts (config ?s0)"
    using budget by (simp add: rate_limit_frame)
  have n: "network ?s0 =
      failures @ (l1, Response d1) # (l2, Response d2) # (l3, Response d3) # rest"
    using net by (simp add: rate_limit_frame)
  from attempts_reauth [OF c1 c2 fails b n d1 d2 d3, of url params "get_b2b_headers s"]
  show ?thesis
    by (simp add: execute_query_def Let_def rate_limit_frame headers_rate_limit params url)
qed

text \<open>
  The theorem at the session whose token has expired: after the connection error and the
  login, the executor returns the page that answers the retry, holds the fresh token and
  has used up the four answers.
\<close>

theorem reauth_then_retry_witness:
  "fst (execute_query B2B PRODUCT_SEARCH_QUERY (JObj []) ''ProductSearch'' stale_session)
     = Inr (Some (page_of [])) \<and>
   b2b_token (snd (execute_query B2B PRODUCT_SEARCH_QUERY (JObj []) ''ProductSearch''
                     stale_session)) = JStr ''fresh'' \<and>
   network (snd (execute_query B2B PRODUCT_SEARCH_QUERY (JObj []) ''ProductSearch''
                   stale_session)) = []"
proof -
  have c1: "\<not> falsy (username (b2b_auth (config stale_session)))"
    by (simp add: stale_session_def world_defs falsy_def)
  have c2: "\<not> falsy (password (b2b_auth (config stale_session)))"
    by (simp add: stale_session_def world_defs falsy_def)
  have f: "list_all (\<lambda>x. snd x = RequestException) [(1/2 :: real, RequestException)]"
    by simp
  have b: "int (length [(1/2 :: real, RequestException)]) + 2
             \<le> retry_attempts (config stale_session)"
    by (simp add: stale_session_def world_defs)
  have n: "network stale_session =
      [(1/2, RequestException)] @
      (1/2, Response auth_error_body) # (1/2, Response token_body) #
      (1/2, Response (page_of [])) # []"
    by (simp add: stale_session_def MMAPIClient_init_def)
  have d1a: "py_getitem auth_error_body ''errors'' = Inr (JArr [auth_error])"
    by (simp add: auth_error_body_def)
  have d1b: "py_iter (JArr [auth_error]) = Inr [auth_error]" by simp
  have d1c: "list_ex mentions_authorization [auth_error]"
    by (simp add: auth_error_def mentions_authorization_def lower_char_def)
  have d2a: "py_in ''errors'' token_body = Inr False" by (simp add: token_body_def)
  have d2b: "py_getitem token_body ''data''
      = Inr (JObj [(''generateCustomerToken'', JObj [(''token'', JStr ''fresh'')])])"
    by (simp add: token_body_def)
  have d2c: "py_getitem (JObj [(''generateCustomerToken'', JObj [(''token'', JStr ''fresh'')])])
      ''generateCustomerToken'' = Inr (JObj [(''token'', JStr ''fresh'')])"
    by simp
  have d2d: "py_getitem (JObj [(''token'', JStr ''fresh'')]) ''token'' = Inr (JStr ''fresh'')"
    by simp
  have d3: "py_in ''errors'' (page_of []) = Inr False" by (simp add: page_of_def)
  from reauth_then_retry [OF c1 c2 f b n d1a d1b d1c d2a d2b d2c d2d d3 refl refl]
  show ?thesis by blast
qed

text \<open>
  C1 as the claim states it fails.  With the default budget of three attempts, two
  connection errors and then the authorization error: the login succeeds (the client holds
  the fresh token), yet the executor reports failure and the answer to the retry is never
  asked for.  The retry would have been a fourth attempt: it does consume the budget.
\<close>

theorem reauth_budget_counterexample:
  "fst (execute_query B2B PRODUCT_SEARCH_QUERY (JObj []) ''ProductSearch'' late_expiry_session)
     = Inr None \<and>
   b2b_token (snd (execute_query B2B PRODUCT_SEARCH_QUERY (JObj []) ''ProductSearch''
                     late_expiry_session)) = JStr ''fresh'' \<and>
   network (snd (execute_query B2B PRODUCT_SEARCH_QUERY (JObj []) ''ProductSearch''
                   late_expiry_session)) = [(1/2, Response (page_of []))]"
  by (simp add: late_expiry_session_def world_defs body_defs authenticate_b2b_def
      store_token_def is_auth_error_def mentions_authorization_def lower_char_def
      py_or_def falsy_def)

text \<open>
  C4.  When every one of the \<open>retry_attempts\<close> requests meets a \<open>RequestException\<close>, the
  executor returns the absent result (it does not raise), and what it did after the rate
  limiter is: the request, once per attempt, with a sleep of \<open>2 ^ attempt\<close> seconds after each
  attempt but the last.
\<close>

theorem retries_with_backoff:
  assumes "n = nat (retry_attempts (config s))"
    and "list_all (\<lambda>x. snd x = RequestException) (take n (network s))"
    and "req = GET (if pf = B2C then endpoint (b2c (config s)) else endpoint (b2b (config s)))
                   (if pf = B2C then get_b2c_headers s else get_b2b_headers s)
                   [(''query'', JStr query), (''operationName'', JStr operation_name),
                    (''variables'', variables)]"
  shows "fst (execute_query pf query variables operation_name s) = Inr None \<and>
     map snd (trace (snd (execute_query pf query variables operation_name s))) =
       map snd (trace (rate_limit s)) @
       concat (map (\<lambda>attempt. Sent req #
                      (if Suc attempt < n then [Slept (2 ^ attempt)] else [])) [0..<n])"
proof -
  have a: "nat (retry_attempts (config (rate_limit s))) = n"
    using assms(1) by (simp add: rate_limit_frame)
  have c: "list_all (\<lambda>x. snd x = RequestException) (take (n - 0) (network (rate_limit s)))"
    using assms(2) by (simp add: rate_limit_frame)
  from attempts_all_fail [OF a refl c] assms(1,3) show ?thesis
    by (simp add: execute_query_def Let_def rate_limit_frame headers_rate_limit)
qed

text \<open>
  The theorem at the session with three failing requests: the result is absent, three
  requests went out, and the sleeps between them were of 1 and 2 seconds.
\<close>

theorem retries_with_backoff_witness:
  "fst (execute_query B2C PRODUCT_SEARCH_QUERY (JObj []) ''ProductSearch'' outage_session)
     = Inr None \<and>
   filter is_sleep (map snd (trace (snd (execute_query B2C PRODUCT_SEARCH_QUERY (JObj [])
                                           ''ProductSearch'' outage_session))))
     = [Slept 1, Slept 2] \<and>
   length (filter (\<lambda>e. \<not> is_sleep e)
             (map snd (trace (snd (execute_query B2C PRODUCT_SEARCH_QUERY (JObj [])
                                     ''ProductSearch'' outage_session))))) = 3"
proof -
  have n: "3 = nat (retry_attempts (config outage_session))"
    by (simp add: outage_session_def world_defs)
  have f: "list_all (\<lambda>x. snd x = RequestException) (take 3 (network outage_session))"
    by (simp add: outage_session_def MMAPIClient_init_def)
  have t: "trace (rate_limit outage_session) = []"
    by (simp add: outage_session_def world_defs)
  from retries_with_backoff
         [where s = outage_session and n = 3 and pf = B2C and query = PRODUCT_SEARCH_QUERY
            and variables = "JObj []" and operation_name = "''ProductSearch''", OF n f refl] t
  show ?thesis by (simp add: upt_rec)
qed

text \<open>
  C6 (as amended).  A call of the executor sets the last-request-time watermark once, in the
  rate limiter before the first attempt, to the time at which that attempt starts; this
  happens whether the query succeeds, fails or raises.  Nothing after it in the call (a
  retry, a backoff sleep, a login) changes the watermark.
\<close>

theorem watermark_set_once:
  "last_request_time (snd (execute_query pf query variables operation_name s))
     = clock (rate_limit s) \<and>
   clock (rate_limit s) = max (clock s) (last_request_time s + rate_limit_delay (config s))"
  by (simp add: execute_query_def Let_def attempts_watermark rate_limit_watermark)

text \<open>
  C6 as the claim states it fails: the first attempt goes out at time 100 and meets a
  connection error, the retry goes out at 101.5 and succeeds, and the watermark still shows
  100 afterwards.
\<close>

theorem watermark_retry_counterexample:
  "sent_at (snd (execute_query B2C PRODUCT_SEARCH_QUERY (JObj []) ''ProductSearch''
                   flaky_session)) = [100, 203/2] \<and>
   last_request_time (snd (execute_query B2C PRODUCT_SEARCH_QUERY (JObj []) ''ProductSearch''
                             flaky_session)) = 100"
  by (simp add: flaky_session_def world_defs body_defs sent_at_def)

section \<open>The catalog client\<close>

text \<open>
  C2 (as amended).  When the executor returns the absent result, or a document that is
  falsy, or an object without the \<open>data\<close> field, or one whose \<open>data\<close> is an object without the
  \<open>products\<close> field, \<open>search_products\<close> returns the absent result and does not raise.  (A
  document whose \<open>products\<close> are there but are not of the expected shape is not covered.)
\<close>

theorem search_absent:
  assumes "execute_query pf PRODUCT_SEARCH_QUERY
             (JObj [(''currentPage'', JNum (of_int page)),
                    (''pageSize'', JNum (of_int page_size)),
                    (''inputText'', JStr search_term)]) ''ProductSearch'' s = (Inr r, s')"
    and "r = None \<or>
         (\<exists>doc. r = Some doc \<and>
            (\<not> py_truthy doc \<or>
             (\<exists>kvs. doc = JObj kvs \<and>
                (map_of kvs ''data'' = None \<or>
                 (\<exists>dd. map_of kvs ''data'' = Some (JObj dd) \<and>
                         map_of dd ''products'' = None)))))"
  shows "search_products V search_term pf page page_size sort_by s = (Inr None, s')"
proof (cases r)
  case None
  with assms(1) show ?thesis by (simp add: search_products_def)
next
  case (Some doc)
  with assms(2) have "products_missing doc = Inr True"
    by (intro products_missing_cases) simp
  with Some assms(1) show ?thesis
    by (simp add: search_products_def to_search_result_def andthen_def)
qed

text \<open>
  The theorem at two sessions: one where the executor gives up after three failing
  requests, one where the backend answers with a document without products.
\<close>

theorem search_absent_witness:
  "fst (search_products strict_validation ''rice'' B2C 1 24 ''relevance'' outage_session)
     = Inr None \<and>
   fst (search_products strict_validation ''rice'' B2C 1 24 ''relevance'' no_products_session)
     = Inr None"
proof -
  let ?vars = "JObj [(''currentPage'', JNum (of_int 1)), (''pageSize'', JNum (of_int 24)),
                     (''inputText'', JStr ''rice'')]"
  have "fst (execute_query B2C PRODUCT_SEARCH_QUERY ?vars ''ProductSearch'' outage_session)
          = Inr None"
    by (simp add: outage_session_def world_defs)
  then obtain s1 where e1:
    "execute_query B2C PRODUCT_SEARCH_QUERY ?vars ''ProductSearch'' outage_session
       = (Inr None, s1)"
    by (cases "execute_query B2C PRODUCT_SEARCH_QUERY ?vars ''ProductSearch'' outage_session")
       simp
  have "fst (execute_query B2C PRODUCT_SEARCH_QUERY ?vars ''ProductSearch''
               no_products_session) = Inr (Some (JObj [(''data'', JObj [])]))"
    by (simp add: no_products_session_def world_defs)
  then obtain s2 where e2:
    "execute_query B2C PRODUCT_SEARCH_QUERY ?vars ''ProductSearch'' no_products_session
       = (Inr (Some (JObj [(''data'', JObj [])])), s2)"
    by (cases "execute_query B2C PRODUCT_SEARCH_QUERY ?vars ''ProductSearch''
                 no_products_session") simp
  have h2: "Some (JObj [(''data'', JObj [])]) = None \<or>
         (\<exists>doc. Some (JObj [(''data'', JObj [])]) = Some doc \<and>
            (\<not> py_truthy doc \<or>
             (\<exists>kvs. doc = JObj kvs \<and>
                (map_of kvs ''data'' = None \<or>
                 (\<exists>dd. map_of kvs ''data'' = Some (JObj dd) \<and>
                         map_of dd ''products'' = None)))))"
    by simp
  have h1: "(None :: json option) = None \<or>
         (\<exists>doc. None = Some doc \<and>
            (\<not> py_truthy doc \<or>
             (\<exists>kvs. doc = JObj kvs \<and>
                (map_of kvs ''data'' = None \<or>
                 (\<exists>dd. map_of kvs ''data'' = Some (JObj dd) \<and>
                         map_of dd ''products'' = None)))))"
    by simp
  from search_absent [OF e1 h1, of strict_validation "''relevance''"]
       search_absent [OF e2 h2, of strict_validation "''relevance''"]
  show ?thesis by simp
qed

text \<open>
  C2 as the claim states it fails: the backend answers with a page whose item has no
  \<open>price_range\<close>, and \<open>search_products\<close> raises \<open>KeyError\<close> instead of returning the absent
  result.
\<close>

theorem search_raises_counterexample:
  "fst (search_products strict_validation ''rice'' B2C 1 24 ''relevance'' broken_session)
     = Inl KeyError"
  by (simp add: broken_session_def world_defs body_defs parse_defs)

text \<open>
  C3 (as amended).  When both single-page searches of \<open>compare_prices\<close> return (a result or
  the absent one, neither raising): if either is absent, the comparison is the empty list;
  otherwise the sku of every comparison is the sku of a product of the consumer result and
  of a product of the business result, and the list is in descending order of
  \<open>savings_percentage\<close>.
\<close>

theorem compare_prices_join_sorted:
  assumes "fst (search_products V search_term B2C 1 max_results ''relevance'' s) = Inr r1"
    and "fst (search_products V search_term B2B 1 max_results ''relevance''
                (snd (search_products V search_term B2C 1 max_results ''relevance'' s)))
           = Inr r2"
  shows "(r1 = None \<or> r2 = None \<longrightarrow>
            fst (compare_prices V search_term max_results s) = Inr []) \<and>
     (\<forall>x y. r1 = Some x \<and> r2 = Some y \<longrightarrow>
        (\<exists>cs. fst (compare_prices V search_term max_results s) = Inr cs \<and>
           (\<forall>c \<in> set cs. cmp_sku c \<in> sku ` set (products x) \<and>
                          cmp_sku c \<in> sku ` set (products y)) \<and>
           sorted_wrt (\<lambda>a b. savings_percentage a \<ge> savings_percentage b) cs))"
proof -
  obtain s1 where e1:
    "search_products V search_term B2C 1 max_results ''relevance'' s = (Inr r1, s1)"
    using assms(1)
    by (cases "search_products V search_term B2C 1 max_results ''relevance'' s") simp
  with assms(2) obtain s2 where e2:
    "search_products V search_term B2B 1 max_results ''relevance'' s1 = (Inr r2, s2)"
    by (cases "search_products V search_term B2B 1 max_results ''relevance'' s1") simp
  show ?thesis
  proof (intro conjI impI allI)
    assume "r1 = None \<or> r2 = None"
    with e1 e2 show "fst (compare_prices V search_term max_results s) = Inr []"
      by (auto simp add: compare_prices_def split: option.split)
  next
    fix x y
    assume "r1 = Some x \<and> r2 = Some y"
    with e1 e2 have "fst (compare_prices V search_term max_results s) =
        Inr (sort_reverse savings_percentage (comparisons (by_sku (products y)) (products x)))"
      by (simp add: compare_prices_def)
    then show "\<exists>cs. fst (compare_prices V search_term max_results s) = Inr cs \<and>
           (\<forall>c \<in> set cs. cmp_sku c \<in> sku ` set (products x) \<and>
                          cmp_sku c \<in> sku ` set (products y)) \<and>
           sorted_wrt (\<lambda>a b. savings_percentage a \<ge> savings_percentage b) cs"
      using comparisons_sku [of _ "products y" "products x"]
      by (simp add: sort_reverse_set sort_reverse_descending)
  qed
qed

text \<open>
  The theorem at the session of the two catalogues: both searches return a result, and the
  comparison lists B (20 percent) before A (10 percent), in descending order; D and C,
  known to one backend only, are left out.
\<close>

theorem compare_prices_join_sorted_witness:
  "map cmp_sku (projr (fst (compare_prices strict_validation ''rice'' 20 market_session)))
     = [''B'', ''A''] \<and>
   map savings_percentage
     (projr (fst (compare_prices strict_validation ''rice'' 20 market_session))) = [20, 10] \<and>
   sorted_wrt (\<lambda>a b. savings_percentage a \<ge> savings_percentage b)
     (projr (fst (compare_prices strict_validation ''rice'' 20 market_session)))"
proof -
  have "\<exists>x. fst (search_products strict_validation ''rice'' B2C 1 20 ''relevance''
                   market_session) = Inr (Some x)"
    by (simp add: market_session_def world_defs body_defs parse_defs)
  then obtain x where h1:
    "fst (search_products strict_validation ''rice'' B2C 1 20 ''relevance'' market_session)
       = Inr (Some x)" ..
  have "\<exists>y. fst (search_products strict_validation ''rice'' B2B 1 20 ''relevance''
                   (snd (search_products strict_validation ''rice'' B2C 1 20 ''relevance''
                           market_session))) = Inr (Some y)"
    by (simp add: market_session_def world_defs body_defs parse_defs)
  then obtain y where h2:
    "fst (search_products strict_validation ''rice'' B2B 1 20 ''relevance''
            (snd (search_products strict_validation ''rice'' B2C 1 20 ''relevance''
                    market_session))) = Inr (Some y)" ..
  from compare_prices_join_sorted [OF h1 h2]
  have desc: "sorted_wrt (\<lambda>a b. savings_percentage a \<ge> savings_percentage b)
     (projr (fst (compare_prices strict_validation ''rice'' 20 market_session)))"
    by auto
  have vals:
    "map cmp_sku (projr (fst (compare_prices strict_validation ''rice'' 20 market_session)))
       = [''B'', ''A''] \<and>
     map savings_percentage
       (projr (fst (compare_prices strict_validation ''rice'' 20 market_session))) = [20, 10]"
    by (simp add: market_session_def compare_prices_def world_defs body_defs parse_defs
        sort_reverse_def by_sku_def comparison_def price_def full_url_def)
  from desc vals show ?thesis by simp
qed

text \<open>
  C3 as the claim states it fails: the consumer search fails (it returns the absent
  result), the business search meets an item without \<open>price_range\<close>, and \<open>compare_prices\<close>
  raises \<open>KeyError\<close> instead of returning the empty list.
\<close>

theorem compare_prices_raises_counterexample:
  "fst (search_products strict_validation ''rice'' B2C 1 20 ''relevance'' half_broken_session)
     = Inr None \<and>
   fst (compare_prices strict_validation ''rice'' 20 half_broken_session) = Inl KeyError"
  by (simp add: half_broken_session_def compare_prices_def world_defs body_defs parse_defs)

text \<open>
  C9.  \<open>search_products\<close> does the same for any two values of \<open>sort_by\<close>: the same result and
  the same session after it, whose record holds the request that was sent, with its
  variables.
\<close>

theorem search_products_ignores_sort_by:
  "search_products V search_term pf page page_size sort_by1 s
     = search_products V search_term pf page page_size sort_by2 s"
  by (simp add: search_products_def)

section \<open>Price ranges\<close>

text \<open>
  C5.  A price range built from a regular and a final price alone has the discount
  \<open>regular - final\<close>; it has a discount exactly when that amount is positive; its discount
  percentage is 0 when the regular price is at most 0, and discount / regular * 100 otherwise.
\<close>

theorem price_range_derived:
  "discount_amount (PriceRange_init fp rp None) = Some (pvalue rp - pvalue fp) \<and>
   has_discount (PriceRange_init fp rp None) = Inr (pvalue rp - pvalue fp > 0) \<and>
   discount_percentage (PriceRange_init fp rp None) =
     Inr (if pvalue rp \<le> 0 then 0 else (pvalue rp - pvalue fp) / pvalue rp * 100)"
  by (simp add: PriceRange_init_def has_discount_def discount_percentage_def)

section \<open>The store directory\<close>

text \<open>
  C7 (as amended).  A code of digits resolves to the same store with the consumer prefix
  and the suffix around it (\<open>b2c_10010_vi\<close>), with the business prefix and the suffix
  (\<open>mm_10010_vi\<close>), and bare (\<open>10010\<close>): the known prefixes and the suffix are removed before the
  lookup under the bare code.  (White space is not removed.)
\<close>

theorem get_store_normalises:
  assumes "list_all (\<lambda>ch. ch \<in> set ''0123456789'') n"
  shows "get_store (''b2c_'' @ n @ ''_vi'') = map_of KNOWN_STORES n \<and>
     get_store (''mm_'' @ n @ ''_vi'') = map_of KNOWN_STORES n \<and>
     get_store n = map_of KNOWN_STORES n"
  by (simp only: get_store_def numeric_code_digits [OF assms] simp_thms)

text \<open>The theorem at the code \<open>10010\<close>: the three forms resolve to the one known store.\<close>

theorem get_store_normalises_witness:
  "get_store ''b2c_10010_vi'' = map_of KNOWN_STORES ''10010'' \<and>
   get_store ''mm_10010_vi'' = map_of KNOWN_STORES ''10010'' \<and>
   get_store ''10010'' = map_of KNOWN_STORES ''10010'' \<and>
   map_of KNOWN_STORES ''10010'' \<noteq> None"
proof -
  have h: "list_all (\<lambda>ch. ch \<in> set ''0123456789'') ''10010''" by simp
  have k: "map_of KNOWN_STORES ''10010'' \<noteq> None" by (simp add: KNOWN_STORES_def)
  from get_store_normalises [OF h] have
    "get_store ''b2c_10010_vi'' = map_of KNOWN_STORES ''10010'' \<and>
     get_store ''mm_10010_vi'' = map_of KNOWN_STORES ''10010'' \<and>
     get_store ''10010'' = map_of KNOWN_STORES ''10010''" by simp
  with k show ?thesis by blast
qed

text \<open>
  C7 as the claim states it fails: with the blanks of the claim's first code the lookup
  finds nothing, while the bare code finds a store.
\<close>

theorem get_store_blanks_counterexample:
  "get_store '' b2c_10010_vi '' = None \<and> get_store ''10010'' \<noteq> None"
  by (simp add: get_store_def numeric_code_def KNOWN_STORES_def)

text \<open>
  C8.  For a code that resolves to no store, both selection operations return false;
  \<open>set_current_store\<close> leaves the manager as it was, and \<open>update_config_store\<close> leaves the
  configuration, with the store identifiers of the two backends, as it was.
\<close>

theorem unknown_store_no_effect:
  "get_store c = None \<Longrightarrow>
     set_current_store c m = (False, m) \<and> update_config_store cfg c = (False, cfg)"
  by (simp add: set_current_store_def update_config_store_def)

theorem unknown_store_no_effect_witness:
  "get_store ''99999'' = None \<and>
   set_current_store ''99999'' StoreManager_init = (False, StoreManager_init) \<and>
   update_config_store (MMConfig_default None None None) ''99999''
     = (False, MMConfig_default None None None)"
proof -
  have h: "get_store ''99999'' = None"
    by (simp add: get_store_def numeric_code_def KNOWN_STORES_def)
  from unknown_store_no_effect [OF h, of StoreManager_init "MMConfig_default None None None"] h
  show ?thesis by simp
qed

text \<open>
  C10.  In every reachable state of a store manager a current store is selected, and it is
  a store of the directory, filed under its own code.  The constructor selects the entry
  under \<open>10010\<close>, which the directory has; \<open>set_current_store\<close> replaces the selection by
  the store that the lookup found, and leaves it as it is when the lookup found none.
\<close>

theorem current_store_always_known:
  assumes "reachable m"
  shows "(\<exists>st. current_store m = Some st \<and> map_of KNOWN_STORES (code st) = Some st) \<and>
     current_store StoreManager_init = map_of KNOWN_STORES ''10010'' \<and>
     (\<exists>st. map_of KNOWN_STORES ''10010'' = Some st \<and> code st = ''10010'') \<and>
     current_store (snd (set_current_store c m))
       = (case get_store c of None \<Rightarrow> current_store m | Some st \<Rightarrow> Some st)"
proof -
  have known: "\<exists>st. current_store m = Some st \<and> map_of KNOWN_STORES (code st) = Some st"
    using assms
  proof (induction rule: reachable.induct)
    case init
    show ?case by (simp add: StoreManager_init_def KNOWN_STORES_def)
  next
    case (step m c)
    show ?case
    proof (cases "get_store c")
      case None
      with step.IH show ?thesis by (simp add: set_current_store_def)
    next
      case (Some st)
      then have "map_of KNOWN_STORES (numeric_code c) = Some st" by (simp add: get_store_def)
      then have "map_of KNOWN_STORES (code st) = Some st"
        using known_store_code by fastforce
      with Some show ?thesis by (simp add: set_current_store_def)
    qed
  qed
  have first: "current_store StoreManager_init = map_of KNOWN_STORES ''10010''"
    by (simp add: StoreManager_init_def)
  have entry: "\<exists>st. map_of KNOWN_STORES ''10010'' = Some st \<and> code st = ''10010''"
    by (simp add: KNOWN_STORES_def)
  have upd: "current_store (snd (set_current_store c m))
       = (case get_store c of None \<Rightarrow> current_store m | Some st \<Rightarrow> Some st)"
    by (simp add: set_current_store_def split: option.split)
  from known first entry upd show ?thesis by blast
qed

text \<open>
  The theorem at the manager after the selection of \<open>mm_10015_vi\<close>: the store \<open>10015\<close> is
  selected, and selecting the unknown code \<open>99999\<close> leaves it selected.
\<close>

theorem current_store_always_known_witness:
  "reachable (snd (set_current_store ''mm_10015_vi'' StoreManager_init)) \<and>
   current_store (snd (set_current_store ''mm_10015_vi'' StoreManager_init))
     = map_of KNOWN_STORES ''10015'' \<and>
   map_of KNOWN_STORES ''10015'' \<noteq> None \<and>
   current_store (snd (set_current_store ''99999''
                         (snd (set_current_store ''mm_10015_vi'' StoreManager_init))))
     = map_of KNOWN_STORES ''10015''"
proof -
  let ?m = "snd (set_current_store ''mm_10015_vi'' StoreManager_init)"
  have r: "reachable ?m" by (simp add: reachable.init reachable.step)
  have g: "get_store ''99999'' = None"
    by (simp add: get_store_def numeric_code_def KNOWN_STORES_def)
  have cur: "current_store ?m = map_of KNOWN_STORES ''10015''"
    by (simp add: set_current_store_def get_store_def numeric_code_def KNOWN_STORES_def)
  have k: "map_of KNOWN_STORES ''10015'' \<noteq> None" by (simp add: KNOWN_STORES_def)
  from current_store_always_known [OF r, of "''99999''"] g
  have "current_store (snd (set_current_store ''99999'' ?m)) = current_store ?m"
    by simp
  with r cur k show ?thesis by simp
qed

end
